theory Spec2Isabelle
  imports Main "HOL-Library.AList" "HOL-Library.Multiset"
begin

section \<open>Enumerations (enums.py)\<close>

datatype Direction = NORTH | SOUTH | EAST | WEST

datatype Movement = STRAIGHT | LEFT | RIGHT

datatype TrafficLightState = RED | YELLOW | GREEN | GREEN_ARROW

text \<open>The exceptions the engine can raise: a missing dictionary key, a list index out of
  range, a modulus by zero.\<close>

datatype error = KeyError | IndexError | ZeroDivisionError

type_synonym pos = "int \<times> int"

text \<open>Cars and roads are Python objects shared by reference between the engine, the lanes
  and the intersections; a reference is an address into a store.\<close>

type_synonym car_ref = nat
type_synonym road_ref = nat

section \<open>Car (car.py)\<close>

record Car =
  car_id :: string
  position :: pos
  direction :: Direction
  intended_movement :: Movement
  lane :: int
  max_speed :: int
  wait_time :: int
  target_position :: "pos option"

definition Car_init :: "string \<Rightarrow> pos \<Rightarrow> Direction \<Rightarrow> Movement \<Rightarrow> int \<Rightarrow> int \<Rightarrow> Car" where
  "Car_init cid p d m l ms =
     \<lparr>car_id = cid, position = p, direction = d, intended_movement = m, lane = l,
      max_speed = ms, wait_time = 0, target_position = None\<rparr>"

definition get_next_position :: "Car \<Rightarrow> int \<Rightarrow> pos" where
  "get_next_position car distance =
     (case position car of (row, col) \<Rightarrow>
        (if direction car = NORTH then (row - distance, col)
         else if direction car = SOUTH then (row + distance, col)
         else if direction car = EAST then (row, col + distance)
         else if direction car = WEST then (row, col - distance)
         else position car))"

definition move_to :: "Car \<Rightarrow> pos \<Rightarrow> Car" where
  "move_to car new_position = car\<lparr>position := new_position, wait_time := 0\<rparr>"

definition increment_wait_time :: "Car \<Rightarrow> Car" where
  "increment_wait_time car = car\<lparr>wait_time := wait_time car + 1\<rparr>"

definition turn :: "Car \<Rightarrow> Direction \<Rightarrow> Car" where
  "turn car new_direction = car\<lparr>direction := new_direction\<rparr>"

section \<open>Lane and Road (road.py)\<close>

record Lane =
  lane_id :: string
  lane_direction :: Direction
  positions :: "pos set"
  lane_cars :: "car_ref list"
  max_cars :: nat

definition Lane_init :: "string \<Rightarrow> Direction \<Rightarrow> pos set \<Rightarrow> Lane" where
  "Lane_init lid d ps =
     \<lparr>lane_id = lid, lane_direction = d, positions = ps, lane_cars = [], max_cars = card ps\<rparr>"

text \<open>\<open>Lane.add_car\<close>: the capacity and the membership of the car's cell are checked, nothing
  else. The car store is read for the car's position.\<close>

definition Lane_add_car :: "(car_ref \<Rightarrow> Car) \<Rightarrow> Lane \<Rightarrow> car_ref \<Rightarrow> Lane \<times> bool" where
  "Lane_add_car h l c =
     (if length (lane_cars l) < max_cars l \<and> position (h c) \<in> positions l
      then (l\<lparr>lane_cars := lane_cars l @ [c]\<rparr>, True)
      else (l, False))"

text \<open>\<open>list.remove\<close> deletes the first occurrence only.\<close>

definition Lane_remove_car :: "Lane \<Rightarrow> car_ref \<Rightarrow> Lane \<times> bool" where
  "Lane_remove_car l c =
     (if c \<in> set (lane_cars l) then (l\<lparr>lane_cars := remove1 c (lane_cars l)\<rparr>, True)
      else (l, False))"

definition Lane_get_car_at_position :: "(car_ref \<Rightarrow> Car) \<Rightarrow> Lane \<Rightarrow> pos \<Rightarrow> car_ref option" where
  "Lane_get_car_at_position h l p = find (\<lambda>c. position (h c) = p) (lane_cars l)"

definition Lane_is_position_free :: "(car_ref \<Rightarrow> Car) \<Rightarrow> Lane \<Rightarrow> pos \<Rightarrow> bool" where
  "Lane_is_position_free h l p = (p \<in> positions l \<and> Lane_get_car_at_position h l p = None)"

text \<open>The dictionary \<open>lanes\<close> keeps its keys in insertion order, which is the order of
  every loop over \<open>lanes.values()\<close>.\<close>

record Road =
  road_id :: string
  start_pos :: pos
  end_pos :: pos
  road_direction :: Direction
  num_lanes :: int
  lanes :: "(int \<times> Lane) list"

text \<open>Decimal digits of an integer, for the f-string that names a lane.\<close>

fun digits :: "nat \<Rightarrow> string" where
  "digits n = (if n < 10 then [char_of (48 + n)] else digits (n div 10) @ [char_of (48 + n mod 10)])"

declare digits.simps [simp del]

definition str_int :: "int \<Rightarrow> string" where
  "str_int i = (if i < 0 then CHR ''-'' # digits (nat (- i)) else digits (nat i))"

definition get_road_positions :: "pos \<Rightarrow> pos \<Rightarrow> Direction \<Rightarrow> int \<Rightarrow> pos list" where
  "get_road_positions sp ep d n =
     (case sp of (start_row, start_col) \<Rightarrow> case ep of (end_row, end_col) \<Rightarrow>
        (if d \<in> set [NORTH, SOUTH]
         then concat (map (\<lambda>row. map (\<lambda>lane_offset. (row, start_col + lane_offset)) [0..n - 1])
                [min start_row end_row..max start_row end_row])
         else concat (map (\<lambda>col. map (\<lambda>lane_offset. (start_row + lane_offset, col)) [0..n - 1])
                [min start_col end_col..max start_col end_col])))"

definition get_lane_positions :: "pos \<Rightarrow> Direction \<Rightarrow> int \<Rightarrow> pos list \<Rightarrow> pos set" where
  "get_lane_positions sp d lane_num all_positions =
     (if d \<in> set [NORTH, SOUTH]
      then set (filter (\<lambda>(row, col). col = snd sp + lane_num) all_positions)
      else set (filter (\<lambda>(row, col). row = fst sp + lane_num) all_positions))"

definition create_lanes :: "string \<Rightarrow> pos \<Rightarrow> pos \<Rightarrow> Direction \<Rightarrow> int \<Rightarrow> (int \<times> Lane) list" where
  "create_lanes rid sp ep d n =
     (let all_positions = get_road_positions sp ep d n
      in map (\<lambda>lane_num.
                (lane_num, Lane_init (rid @ ''_lane_'' @ str_int lane_num) d
                             (get_lane_positions sp d lane_num all_positions)))
             [0..n - 1])"

definition Road_init :: "string \<Rightarrow> pos \<Rightarrow> pos \<Rightarrow> Direction \<Rightarrow> int \<Rightarrow> Road" where
  "Road_init rid sp ep d n =
     \<lparr>road_id = rid, start_pos = sp, end_pos = ep, road_direction = d, num_lanes = n,
      lanes = create_lanes rid sp ep d n\<rparr>"

text \<open>\<open>Road.add_car\<close> returns the road, the car (its lane index set on success) and the
  result.\<close>

definition Road_add_car :: "(car_ref \<Rightarrow> Car) \<Rightarrow> Road \<Rightarrow> car_ref \<Rightarrow> int \<Rightarrow> (car_ref \<Rightarrow> Car) \<times> Road \<times> bool" where
  "Road_add_car h r c lane_num =
     (case map_of (lanes r) lane_num of
        Some l \<Rightarrow>
          (case Lane_add_car h l c of (l', success) \<Rightarrow>
             (if success
              then (h(c := (h c)\<lparr>lane := lane_num\<rparr>),
                    r\<lparr>lanes := AList.update lane_num l' (lanes r)\<rparr>, True)
              else (h, r, False)))
      | None \<Rightarrow> (h, r, False))"

text \<open>\<open>Road.remove_car\<close> stops at the first lane that held the car.\<close>

fun remove_car_lanes :: "(int \<times> Lane) list \<Rightarrow> car_ref \<Rightarrow> (int \<times> Lane) list \<times> bool" where
  "remove_car_lanes [] c = ([], False)"
| "remove_car_lanes ((k, l) # ls) c =
     (case Lane_remove_car l c of (l', removed) \<Rightarrow>
        (if removed then ((k, l') # ls, True)
         else (case remove_car_lanes ls c of (ls', b) \<Rightarrow> ((k, l) # ls', b))))"

definition Road_remove_car :: "Road \<Rightarrow> car_ref \<Rightarrow> Road \<times> bool" where
  "Road_remove_car r c = (case remove_car_lanes (lanes r) c of (ls, b) \<Rightarrow> (r\<lparr>lanes := ls\<rparr>, b))"

definition get_all_cars :: "Road \<Rightarrow> car_ref list" where
  "get_all_cars r = concat (map (\<lambda>(k, l). lane_cars l) (lanes r))"

text \<open>\<open>Road.is_position_free\<close> with no lane given: the first lane whose cells hold the
  position decides.\<close>

definition Road_is_position_free :: "(car_ref \<Rightarrow> Car) \<Rightarrow> Road \<Rightarrow> pos \<Rightarrow> bool" where
  "Road_is_position_free h r p =
     (case find (\<lambda>(k, l). p \<in> positions l) (lanes r) of
        Some (k, l) \<Rightarrow> Lane_is_position_free h l p
      | None \<Rightarrow> False)"

fun first_some :: "('a \<Rightarrow> 'b option) \<Rightarrow> 'a list \<Rightarrow> 'b option" where
  "first_some f [] = None"
| "first_some f (x # xs) = (case f x of Some y \<Rightarrow> Some y | None \<Rightarrow> first_some f xs)"

definition Road_get_car_at_position :: "(car_ref \<Rightarrow> Car) \<Rightarrow> Road \<Rightarrow> pos \<Rightarrow> car_ref option" where
  "Road_get_car_at_position h r p = first_some (\<lambda>(k, l). Lane_get_car_at_position h l p) (lanes r)"

section \<open>TrafficLight and TrafficLightController (traffic_light.py)\<close>

record TrafficLight =
  light_id :: string
  light_direction :: Direction
  state :: TrafficLightState
  timer :: int

definition TrafficLight_init :: "string \<Rightarrow> Direction \<Rightarrow> TrafficLight" where
  "TrafficLight_init lid d = \<lparr>light_id = lid, light_direction = d, state = RED, timer = 0\<rparr>"

definition set_state :: "TrafficLight \<Rightarrow> TrafficLightState \<Rightarrow> int \<Rightarrow> TrafficLight" where
  "set_state light new_state duration = light\<lparr>state := new_state, timer := duration\<rparr>"

definition TrafficLight_update :: "TrafficLight \<Rightarrow> TrafficLight" where
  "TrafficLight_update light = (if timer light > 0 then light\<lparr>timer := timer light - 1\<rparr> else light)"

definition can_go_straight :: "TrafficLight \<Rightarrow> bool" where
  "can_go_straight light = (state light \<in> set [GREEN, GREEN_ARROW])"

definition can_turn_left :: "TrafficLight \<Rightarrow> bool" where
  "can_turn_left light = (state light = GREEN_ARROW)"

definition can_turn_right :: "TrafficLight \<Rightarrow> bool" where
  "can_turn_right light = (state light \<noteq> RED)"

record TrafficLightController =
  controller_id :: string
  lights :: "Direction \<rightharpoonup> TrafficLight"
  cycle_position :: int
  cycle_timer :: int
  default_cycle :: "(Direction \<times> Direction) list"
  cycle_duration :: int

definition TrafficLightController_init :: "string \<Rightarrow> TrafficLightController" where
  "TrafficLightController_init iid =
     \<lparr>controller_id = iid, lights = Map.empty, cycle_position = 0, cycle_timer = 0,
      default_cycle = [(NORTH, SOUTH), (EAST, WEST)], cycle_duration = 30\<rparr>"

fun value_of :: "Direction \<Rightarrow> string" where
  "value_of NORTH = ''north''"
| "value_of SOUTH = ''south''"
| "value_of EAST = ''east''"
| "value_of WEST = ''west''"

definition add_light :: "TrafficLightController \<Rightarrow> Direction \<Rightarrow> TrafficLightController" where
  "add_light ctl d =
     ctl\<lparr>lights := (lights ctl)(d \<mapsto> TrafficLight_init (controller_id ctl @ ''_'' @ value_of d) d)\<rparr>"

definition set_light_state :: "TrafficLightController \<Rightarrow> Direction \<Rightarrow> TrafficLightState \<Rightarrow> TrafficLightController" where
  "set_light_state ctl d s =
     (case lights ctl d of
        Some light \<Rightarrow> ctl\<lparr>lights := (lights ctl)(d \<mapsto> set_state light s 0)\<rparr>
      | None \<Rightarrow> ctl)"

text \<open>Subscripting a Python list: \<open>xs[i]\<close> for \<open>0 \<le> i < len(xs)\<close>, \<open>xs[len(xs) + i]\<close> for
  \<open>- len(xs) \<le> i < 0\<close>, and \<open>IndexError\<close> otherwise.\<close>

definition py_index :: "'a list \<Rightarrow> int \<Rightarrow> error + 'a" where
  "py_index xs i =
     (if 0 \<le> i \<and> i < int (length xs) then Inr (xs ! nat i)
      else if i < 0 \<and> - int (length xs) \<le> i then Inr (xs ! nat (int (length xs) + i))
      else Inl IndexError)"

text \<open>\<open>update_automatic_cycle\<close>: the timer advances and may flip the phase, every light is
  set to RED, then the two lights of the phase (those that exist) to GREEN.\<close>

definition green_if_present :: "(Direction \<rightharpoonup> TrafficLight) \<Rightarrow> Direction \<Rightarrow> (Direction \<rightharpoonup> TrafficLight)" where
  "green_if_present ls d =
     (case ls d of Some light \<Rightarrow> ls(d \<mapsto> set_state light GREEN 0) | None \<Rightarrow> ls)"

definition update_automatic_cycle :: "TrafficLightController \<Rightarrow> error + TrafficLightController" where
  "update_automatic_cycle ctl =
     (let t = cycle_timer ctl + 1 in
      if t \<ge> cycle_duration ctl \<and> default_cycle ctl = [] then Inl ZeroDivisionError
      else
        (let ctl1 = (if t \<ge> cycle_duration ctl
                     then ctl\<lparr>cycle_timer := 0,
                              cycle_position := (cycle_position ctl + 1) mod int (length (default_cycle ctl))\<rparr>
                     else ctl\<lparr>cycle_timer := t\<rparr>);
             all_red = (\<lambda>d. map_option (\<lambda>light. set_state light RED 0) (lights ctl1 d))
         in case py_index (default_cycle ctl1) (cycle_position ctl1) of
              Inl e \<Rightarrow> Inl e
            | Inr (d1, d2) \<Rightarrow>
                Inr (ctl1\<lparr>lights := green_if_present (green_if_present all_red d1) d2\<rparr>)))"

definition TrafficLightController_update :: "TrafficLightController \<Rightarrow> TrafficLightController" where
  "TrafficLightController_update ctl = ctl\<lparr>lights := (\<lambda>d. map_option TrafficLight_update (lights ctl d))\<rparr>"

definition get_state_info :: "TrafficLightController \<Rightarrow> (Direction \<rightharpoonup> TrafficLightState)" where
  "get_state_info ctl = (\<lambda>d. map_option state (lights ctl d))"

section \<open>Intersection (intersection.py)\<close>

record Intersection =
  intersection_id :: string
  center_position :: pos
  isize :: int
  traffic_controller :: TrafficLightController
  connected_roads :: "Direction \<rightharpoonup> road_ref"
  intersection_positions :: "pos set"
  cars_in_intersection :: "car_ref list"

definition calculate_intersection_positions :: "pos \<Rightarrow> int \<Rightarrow> pos set" where
  "calculate_intersection_positions center sz =
     (case center of (center_row, center_col) \<Rightarrow>
        (let half_size = sz div 2
         in set (concat (map (\<lambda>row. map (\<lambda>col. (row, col))
                                         [center_col - half_size..center_col + half_size])
                             [center_row - half_size..center_row + half_size]))))"

definition Intersection_init :: "string \<Rightarrow> pos \<Rightarrow> int \<Rightarrow> Intersection" where
  "Intersection_init iid center sz =
     \<lparr>intersection_id = iid, center_position = center, isize = sz,
      traffic_controller = foldl add_light (TrafficLightController_init iid) [NORTH, SOUTH, EAST, WEST],
      connected_roads = Map.empty,
      intersection_positions = calculate_intersection_positions center sz,
      cars_in_intersection = []\<rparr>"

definition connect_road :: "Intersection \<Rightarrow> road_ref \<Rightarrow> Direction \<Rightarrow> Intersection" where
  "connect_road i r d = i\<lparr>connected_roads := (connected_roads i)(d \<mapsto> r)\<rparr>"

definition is_intersection_position_free :: "(car_ref \<Rightarrow> Car) \<Rightarrow> Intersection \<Rightarrow> pos \<Rightarrow> bool" where
  "is_intersection_position_free h i p =
     (if p \<notin> intersection_positions i then False
      else list_all (\<lambda>c. position (h c) \<noteq> p) (cars_in_intersection i))"

text \<open>\<open>can_car_enter\<close> reads \<open>lights[from_direction]\<close> first: a missing light raises.\<close>

definition can_car_enter :: "(car_ref \<Rightarrow> Car) \<Rightarrow> Intersection \<Rightarrow> car_ref \<Rightarrow> Direction \<Rightarrow> error + bool" where
  "can_car_enter h i c from_direction =
     (case lights (traffic_controller i) from_direction of
        None \<Rightarrow> Inl KeyError
      | Some light \<Rightarrow>
          (let has_space = is_intersection_position_free h i (get_next_position (h c) 1)
           in if intended_movement (h c) = STRAIGHT
              then (if \<not> can_go_straight light then Inr False else Inr has_space)
              else if intended_movement (h c) = LEFT
              then (if \<not> can_turn_left light then Inr False else Inr has_space)
              else if intended_movement (h c) = RIGHT
              then (if \<not> can_turn_right light then Inr False else Inr has_space)
              else Inr has_space))"

definition add_car_to_intersection :: "(car_ref \<Rightarrow> Car) \<Rightarrow> Intersection \<Rightarrow> car_ref \<Rightarrow> Intersection \<times> bool" where
  "add_car_to_intersection h i c =
     (if position (h c) \<in> intersection_positions i \<and> c \<notin> set (cars_in_intersection i)
      then (i\<lparr>cars_in_intersection := cars_in_intersection i @ [c]\<rparr>, True)
      else (i, False))"

definition remove_car_from_intersection :: "Intersection \<Rightarrow> car_ref \<Rightarrow> Intersection \<times> bool" where
  "remove_car_from_intersection i c =
     (if c \<in> set (cars_in_intersection i)
      then (i\<lparr>cars_in_intersection := remove1 c (cars_in_intersection i)\<rparr>, True)
      else (i, False))"

definition get_exit_direction :: "Car \<Rightarrow> Direction \<Rightarrow> Direction" where
  "get_exit_direction car entry_direction =
     (if intended_movement car = STRAIGHT then entry_direction
      else if intended_movement car = RIGHT then
        (if entry_direction = NORTH then EAST
         else if entry_direction = EAST then SOUTH
         else if entry_direction = SOUTH then WEST
         else if entry_direction = WEST then NORTH
         else entry_direction)
      else if intended_movement car = LEFT then
        (if entry_direction = NORTH then WEST
         else if entry_direction = WEST then SOUTH
         else if entry_direction = SOUTH then EAST
         else if entry_direction = EAST then NORTH
         else entry_direction)
      else entry_direction)"

definition process_car_in_intersection :: "Intersection \<Rightarrow> Car \<Rightarrow> Direction \<Rightarrow> Direction option" where
  "process_car_in_intersection i car entry_direction =
     (let exit_direction = get_exit_direction car entry_direction
      in case center_position i of (center_row, center_col) \<Rightarrow>
        (if exit_direction = NORTH \<and> fst (position car) \<le> center_row - 1 then Some exit_direction
         else if exit_direction = SOUTH \<and> fst (position car) \<ge> center_row + 1 then Some exit_direction
         else if exit_direction = EAST \<and> snd (position car) \<ge> center_col + 1 then Some exit_direction
         else if exit_direction = WEST \<and> snd (position car) \<le> center_col - 1 then Some exit_direction
         else None))"

definition Intersection_update :: "Intersection \<Rightarrow> Intersection" where
  "Intersection_update i = i\<lparr>traffic_controller := TrafficLightController_update (traffic_controller i)\<rparr>"

section \<open>TrafficSimulation (simulation.py)\<close>

record TrafficSimulation =
  grid_size :: "int \<times> int"
  roads :: "(string \<times> road_ref) list"
  intersections :: "(string \<times> Intersection) list"
  cars :: "car_ref list"
  tick_count :: int
  max_car_speed :: int
  car_entry_directions :: "string \<rightharpoonup> Direction"

text \<open>The whole state: the store of cars (created by the caller), the store of roads
  (shared between the engine's registry and the intersections they are connected to, with
  the next free address) and the engine.\<close>

record world =
  car_heap :: "car_ref \<Rightarrow> Car"
  road_heap :: "road_ref \<Rightarrow> Road"
  next_road :: road_ref
  sim :: TrafficSimulation

definition TrafficSimulation_init :: "int \<times> int \<Rightarrow> TrafficSimulation" where
  "TrafficSimulation_init gs =
     \<lparr>grid_size = gs, roads = [], intersections = [], cars = [], tick_count = 0,
      max_car_speed = 2, car_entry_directions = Map.empty\<rparr>"

definition new_road :: "world \<Rightarrow> Road \<Rightarrow> world \<times> road_ref" where
  "new_road w r = (w\<lparr>road_heap := (road_heap w)(next_road w := r), next_road := Suc (next_road w)\<rparr>,
                   next_road w)"

definition add_road :: "world \<Rightarrow> road_ref \<Rightarrow> world" where
  "add_road w r =
     w\<lparr>sim := (sim w)\<lparr>roads := AList.update (road_id (road_heap w r)) r (roads (sim w))\<rparr>\<rparr>"

definition add_intersection :: "world \<Rightarrow> Intersection \<Rightarrow> world" where
  "add_intersection w i =
     w\<lparr>sim := (sim w)\<lparr>intersections := AList.update (intersection_id i) i (intersections (sim w))\<rparr>\<rparr>"

definition add_car :: "world \<Rightarrow> car_ref \<Rightarrow> string \<Rightarrow> int \<Rightarrow> world \<times> bool" where
  "add_car w c rid lane_num =
     (case map_of (roads (sim w)) rid of
        Some r \<Rightarrow>
          (case Road_add_car (car_heap w) (road_heap w r) c lane_num of (h', road', success) \<Rightarrow>
             (let w' = w\<lparr>car_heap := h', road_heap := (road_heap w)(r := road')\<rparr>
              in if success then (w'\<lparr>sim := (sim w)\<lparr>cars := cars (sim w) @ [c]\<rparr>\<rparr>, True)
                 else (w', False)))
      | None \<Rightarrow> (w, False))"

text \<open>\<open>remove_car\<close>: one occurrence leaves the car list, then every registered road and
  every intersection is asked to remove the car, and the entry record of the car's id is
  deleted.\<close>

definition remove_car :: "world \<Rightarrow> car_ref \<Rightarrow> world" where
  "remove_car w c =
     (if c \<in> set (cars (sim w))
      then w\<lparr>road_heap := foldl (\<lambda>rh r. rh(r := fst (Road_remove_car (rh r) c))) (road_heap w)
                              (map snd (roads (sim w))),
             sim := (sim w)\<lparr>cars := remove1 c (cars (sim w)),
                             intersections := map (\<lambda>(k, i). (k, fst (remove_car_from_intersection i c)))
                                                  (intersections (sim w)),
                             car_entry_directions := (car_entry_directions (sim w))(car_id (car_heap w c) := None)\<rparr>\<rparr>
      else w)"

definition get_car_at_position :: "world \<Rightarrow> pos \<Rightarrow> car_ref option" where
  "get_car_at_position w p =
     (case first_some (\<lambda>(k, r). Road_get_car_at_position (car_heap w) (road_heap w r) p) (roads (sim w)) of
        Some c \<Rightarrow> Some c
      | None \<Rightarrow> first_some (\<lambda>(k, i). find (\<lambda>c. position (car_heap w c) = p) (cars_in_intersection i))
                  (intersections (sim w)))"

definition is_position_free :: "world \<Rightarrow> pos \<Rightarrow> bool" where
  "is_position_free w p = (get_car_at_position w p = None)"

definition is_valid_position :: "TrafficSimulation \<Rightarrow> pos \<Rightarrow> bool" where
  "is_valid_position s p =
     (case p of (row, col) \<Rightarrow> 0 \<le> row \<and> row < snd (grid_size s) \<and> 0 \<le> col \<and> col < fst (grid_size s))"

definition find_car_location :: "world \<Rightarrow> car_ref \<Rightarrow> string option \<times> string option" where
  "find_car_location w c =
     (case find (\<lambda>(rid, r). c \<in> set (get_all_cars (road_heap w r))) (roads (sim w)) of
        Some (rid, r) \<Rightarrow> (Some rid, None)
      | None \<Rightarrow>
          (case find (\<lambda>(iid, i). c \<in> set (cars_in_intersection i)) (intersections (sim w)) of
             Some (iid, i) \<Rightarrow> (None, Some iid)
           | None \<Rightarrow> (None, None)))"

definition get_intersection_at_position :: "TrafficSimulation \<Rightarrow> pos \<Rightarrow> (string \<times> Intersection) option" where
  "get_intersection_at_position s p = find (\<lambda>(k, i). p \<in> intersection_positions i) (intersections s)"

definition wait_car :: "world \<Rightarrow> car_ref \<Rightarrow> world" where
  "wait_car w c = w\<lparr>car_heap := (car_heap w)(c := increment_wait_time (car_heap w c))\<rparr>"

definition enter_intersection :: "world \<Rightarrow> car_ref \<Rightarrow> road_ref \<Rightarrow> string \<Rightarrow> Intersection \<Rightarrow> pos \<Rightarrow> world" where
  "enter_intersection w c r k i next_pos =
     (let entry_direction = direction (car_heap w c);
          rh = (road_heap w)(r := fst (Road_remove_car (road_heap w r) c));
          h = (car_heap w)(c := move_to (car_heap w c) next_pos);
          i' = fst (add_car_to_intersection h i c)
      in w\<lparr>car_heap := h, road_heap := rh,
            sim := (sim w)\<lparr>intersections := AList.update k i' (intersections (sim w)),
                            car_entry_directions := (car_entry_directions (sim w))(car_id (h c) \<mapsto> entry_direction)\<rparr>\<rparr>)"

text \<open>\<open>_move_car_on_road\<close>. The loop over \<open>range(1, distance + 1)\<close> leaves through a
  \<open>return\<close> or the \<open>break\<close> in its first iteration, so only the first element of the range,
  if there is one, is ever used.\<close>

definition move_car_on_road :: "world \<Rightarrow> car_ref \<Rightarrow> string \<Rightarrow> error + (world \<times> bool)" where
  "move_car_on_road w c rid =
     (case map_of (roads (sim w)) rid of
        None \<Rightarrow> Inl KeyError
      | Some r \<Rightarrow>
          (let distance = min (max_car_speed (sim w)) 1 in
           case [1..distance] of
             [] \<Rightarrow> Inr (wait_car w c, False)
           | dist # rest \<Rightarrow>
               (let next_pos = get_next_position (car_heap w c) dist in
                if \<not> is_valid_position (sim w) next_pos then Inr (wait_car w c, False)
                else
                  (case get_intersection_at_position (sim w) next_pos of
                     Some (k, i) \<Rightarrow>
                       (case can_car_enter (car_heap w) i c (direction (car_heap w c)) of
                          Inl e \<Rightarrow> Inl e
                        | Inr ok \<Rightarrow>
                            (if ok then Inr (enter_intersection w c r k i next_pos, True)
                             else Inr (wait_car w c, False)))
                   | None \<Rightarrow>
                       (if \<not> is_position_free w next_pos then Inr (wait_car w c, False)
                        else Inr (w\<lparr>car_heap := (car_heap w)(c := move_to (car_heap w c) next_pos)\<rparr>, True))))))"

definition exit_intersection :: "world \<Rightarrow> car_ref \<Rightarrow> string \<Rightarrow> Intersection \<Rightarrow> Direction \<Rightarrow> road_ref \<Rightarrow> pos \<Rightarrow> world" where
  "exit_intersection w c k i exit_direction er next_pos =
     (let i' = fst (remove_car_from_intersection i c);
          h = (car_heap w)(c := move_to (turn (car_heap w c) exit_direction) next_pos)
      in case Road_add_car h (road_heap w er) c (lane (h c)) of (h', road', success) \<Rightarrow>
           w\<lparr>car_heap := h', road_heap := (road_heap w)(er := road'),
             sim := (sim w)\<lparr>intersections := AList.update k i' (intersections (sim w)),
                             car_entry_directions := (car_entry_directions (sim w))(car_id (h' c) := None)\<rparr>\<rparr>)"

definition continue_in_intersection :: "world \<Rightarrow> car_ref \<Rightarrow> Intersection \<Rightarrow> world \<times> bool" where
  "continue_in_intersection w c i =
     (let next_pos = get_next_position (car_heap w c) 1 in
      if next_pos \<in> intersection_positions i \<and> is_intersection_position_free (car_heap w) i next_pos
      then (w\<lparr>car_heap := (car_heap w)(c := move_to (car_heap w c) next_pos)\<rparr>, True)
      else (wait_car w c, False))"

definition move_car_in_intersection :: "world \<Rightarrow> car_ref \<Rightarrow> string \<Rightarrow> error + (world \<times> bool)" where
  "move_car_in_intersection w c iid =
     (case map_of (intersections (sim w)) iid of
        None \<Rightarrow> Inl KeyError
      | Some i \<Rightarrow>
          (let car = car_heap w c;
               entry_direction = (case car_entry_directions (sim w) (car_id car) of
                                    Some d \<Rightarrow> d | None \<Rightarrow> direction car)
           in case process_car_in_intersection i car entry_direction of
                Some exit_direction \<Rightarrow>
                  (case connected_roads i exit_direction of
                     Some er \<Rightarrow>
                       (let next_pos = get_next_position car 1 in
                        if Road_is_position_free (car_heap w) (road_heap w er) next_pos
                        then Inr (exit_intersection w c iid i exit_direction er next_pos, True)
                        else Inr (wait_car w c, False))
                   | None \<Rightarrow> Inr (continue_in_intersection w c i))
              | None \<Rightarrow> Inr (continue_in_intersection w c i)))"

text \<open>Python's truth value of an optional identifier: \<open>None\<close> and the empty string are
  false.\<close>

definition truthy :: "string option \<Rightarrow> bool" where
  "truthy x = (case x of None \<Rightarrow> False | Some s \<Rightarrow> s \<noteq> [])"

definition move_car :: "world \<Rightarrow> car_ref \<Rightarrow> error + (world \<times> bool)" where
  "move_car w c =
     (case find_car_location w c of (road_id_opt, intersection_id_opt) \<Rightarrow>
        (if truthy road_id_opt then move_car_on_road w c (the road_id_opt)
         else if truthy intersection_id_opt then move_car_in_intersection w c (the intersection_id_opt)
         else Inr (w, False)))"

text \<open>The signal phase of a tick: every intersection's controller runs its automatic cycle,
  then the intersection is updated.\<close>

fun update_intersections :: "(string \<times> Intersection) list \<Rightarrow> error + (string \<times> Intersection) list" where
  "update_intersections [] = Inr []"
| "update_intersections ((k, i) # rest) =
     (case update_automatic_cycle (traffic_controller i) of
        Inl e \<Rightarrow> Inl e
      | Inr ctl \<Rightarrow>
          (case update_intersections rest of
             Inl e \<Rightarrow> Inl e
           | Inr rest' \<Rightarrow> Inr ((k, Intersection_update (i\<lparr>traffic_controller := ctl\<rparr>)) # rest')))"

text \<open>The movement phase: one \<open>move_car\<close> per element of the shuffled copy of the car list,
  in its order. The results of \<open>move_car\<close>, which \<open>tick\<close> drops, are collected.\<close>

fun move_cars :: "world \<Rightarrow> car_ref list \<Rightarrow> error + (world \<times> bool list)" where
  "move_cars w [] = Inr (w, [])"
| "move_cars w (c # cs) =
     (case move_car w c of
        Inl e \<Rightarrow> Inl e
      | Inr (w', b) \<Rightarrow>
          (case move_cars w' cs of
             Inl e \<Rightarrow> Inl e
           | Inr (w'', bs) \<Rightarrow> Inr (w'', b # bs)))"

text \<open>\<open>tick\<close>, with the result of \<open>random.shuffle\<close> on the copy of the car list given as
  \<open>cars_to_move\<close>.\<close>

definition tick :: "world \<Rightarrow> car_ref list \<Rightarrow> error + world" where
  "tick w cars_to_move =
     (case update_intersections (intersections (sim w)) of
        Inl e \<Rightarrow> Inl e
      | Inr is \<Rightarrow>
          (case move_cars (w\<lparr>sim := (sim w)\<lparr>tick_count := tick_count (sim w) + 1, intersections := is\<rparr>\<rparr>)
                          cars_to_move of
             Inl e \<Rightarrow> Inl e
           | Inr (w', bs) \<Rightarrow> Inr w'))"

definition set_traffic_light :: "world \<Rightarrow> string \<Rightarrow> Direction \<Rightarrow> TrafficLightState \<Rightarrow> world \<times> bool" where
  "set_traffic_light w iid d st =
     (case map_of (intersections (sim w)) iid of
        Some i \<Rightarrow>
          (w\<lparr>sim := (sim w)\<lparr>intersections :=
                AList.update iid (i\<lparr>traffic_controller := set_light_state (traffic_controller i) d st\<rparr>)
                  (intersections (sim w))\<rparr>\<rparr>, True)
      | None \<Rightarrow> (w, False))"

definition create_simple_four_way_intersection :: "world \<Rightarrow> pos \<Rightarrow> world \<times> string" where
  "create_simple_four_way_intersection w center =
     (case center of (center_row, center_col) \<Rightarrow>
        (let intersection_id = ''main_intersection'';
             intersection = Intersection_init intersection_id center 3;
             (w1, north_road) = new_road w (Road_init ''north_road'' (center_row - 6, center_col) (center_row - 2, center_col) SOUTH 2);
             (w2, south_road) = new_road w1 (Road_init ''south_road'' (center_row + 2, center_col) (center_row + 6, center_col) NORTH 2);
             (w3, east_road) = new_road w2 (Road_init ''east_road'' (center_row, center_col + 2) (center_row, center_col + 6) WEST 2);
             (w4, west_road) = new_road w3 (Road_init ''west_road'' (center_row, center_col - 6) (center_row, center_col - 2) EAST 2);
             w5 = add_road (add_road (add_road (add_road w4 north_road) south_road) east_road) west_road;
             intersection = connect_road (connect_road (connect_road (connect_road intersection
                               north_road NORTH) south_road SOUTH) east_road EAST) west_road WEST
         in (add_intersection w5 intersection, intersection_id)))"

section \<open>Scenarios on the four-way topology\<close>

text \<open>A fresh engine on a 20 x 20 grid, before any road exists, over a given store of
  cars.\<close>

definition empty_world :: "(car_ref \<Rightarrow> Car) \<Rightarrow> world" where
  "empty_world h =
     \<lparr>car_heap = h, road_heap = (\<lambda>r. Road_init [] (0, 0) (0, 0) NORTH 0), next_road = 0,
      sim = TrafficSimulation_init (20, 20)\<rparr>"

definition four_way :: "(car_ref \<Rightarrow> Car) \<Rightarrow> world" where
  "four_way h = fst (create_simple_four_way_intersection (empty_world h) (10, 10))"

section \<open>Notions used by the properties\<close>

subsection \<open>The turn table in the specification's words\<close>

text \<open>Clockwise is NORTH, EAST, SOUTH, WEST, NORTH; counter-clockwise is NORTH, WEST, SOUTH,
  EAST, NORTH.\<close>

fun rotate_clockwise :: "Direction \<Rightarrow> Direction" where
  "rotate_clockwise NORTH = EAST"
| "rotate_clockwise EAST = SOUTH"
| "rotate_clockwise SOUTH = WEST"
| "rotate_clockwise WEST = NORTH"

fun rotate_counter_clockwise :: "Direction \<Rightarrow> Direction" where
  "rotate_counter_clockwise NORTH = WEST"
| "rotate_counter_clockwise WEST = SOUTH"
| "rotate_counter_clockwise SOUTH = EAST"
| "rotate_counter_clockwise EAST = NORTH"

subsection \<open>Histories of a signal controller\<close>

text \<open>The three methods a caller can invoke on a controller after its construction, and a
  sequence of such invocations. \<open>new_controller\<close> is the controller as
  \<open>Intersection.__init__\<close> builds it: one light per direction.\<close>

datatype controller_call = Set_light_state Direction TrafficLightState | Update_automatic_cycle | Update

fun call :: "TrafficLightController \<Rightarrow> controller_call \<Rightarrow> error + TrafficLightController" where
  "call ctl (Set_light_state d s) = Inr (set_light_state ctl d s)"
| "call ctl Update_automatic_cycle = update_automatic_cycle ctl"
| "call ctl Update = Inr (TrafficLightController_update ctl)"

fun calls :: "TrafficLightController \<Rightarrow> controller_call list \<Rightarrow> error + TrafficLightController" where
  "calls ctl [] = Inr ctl"
| "calls ctl (x # xs) = (case call ctl x of Inl e \<Rightarrow> Inl e | Inr ctl' \<Rightarrow> calls ctl' xs)"

definition new_controller :: "string \<Rightarrow> TrafficLightController" where
  "new_controller iid = foldl add_light (TrafficLightController_init iid) [NORTH, SOUTH, EAST, WEST]"

text \<open>After \<open>k\<close> runs of the automatic cycle the timer is \<open>k mod 30\<close> and the phase index
  is \<open>(k div 30) mod 2\<close>.\<close>

definition cycle_inv :: "TrafficLightController \<Rightarrow> nat \<Rightarrow> bool" where
  "cycle_inv ctl k =
     (cycle_timer ctl = int (k mod 30) \<and> cycle_position ctl = int ((k div 30) mod 2) \<and>
      default_cycle ctl = [(NORTH, SOUTH), (EAST, WEST)] \<and> cycle_duration ctl = 30 \<and>
      dom (lights ctl) = UNIV)"

text \<open>The signals that the phase of the \<open>k\<close>-th run shows: (NORTH, SOUTH) green and
  (EAST, WEST) red while \<open>k div 30\<close> is even, the converse while it is odd.\<close>

definition phase_shown :: "TrafficLightController \<Rightarrow> nat \<Rightarrow> bool" where
  "phase_shown ctl k =
     (map (get_state_info ctl) [NORTH, SOUTH, EAST, WEST] =
        (if even (k div 30)
         then [Some GREEN, Some GREEN, Some RED, Some RED]
         else [Some RED, Some RED, Some GREEN, Some GREEN]))"

subsection \<open>The contract of \<open>add_car\<close>\<close>

text \<open>Every lane of a registered road has the capacity its constructor gave it: the number
  of its cells.\<close>

definition lanes_constructed :: "world \<Rightarrow> bool" where
  "lanes_constructed w =
     list_all (\<lambda>(k, r). list_all (\<lambda>(n, l). max_cars l = card (positions l)) (lanes (road_heap w r)))
       (roads (sim w))"

text \<open>The acceptance condition in the specification's words: the road is known, the lane
  index names one of its lanes, the lane holds fewer cars than it has cells, and the car's
  cell is one of the lane's cells.\<close>

definition add_car_accepts :: "world \<Rightarrow> car_ref \<Rightarrow> string \<Rightarrow> int \<Rightarrow> bool" where
  "add_car_accepts w c rid lane_num =
     (case map_of (roads (sim w)) rid of
        None \<Rightarrow> False
      | Some r \<Rightarrow>
          (case map_of (lanes (road_heap w r)) lane_num of
             None \<Rightarrow> False
           | Some l \<Rightarrow> length (lane_cars l) < card (positions l) \<and> position (car_heap w c) \<in> positions l))"

text \<open>The effect of an accepted \<open>add_car\<close>: the car is appended to the lane and to the
  engine's car list and its lane index is set; nothing else changes.\<close>

definition add_car_effect :: "world \<Rightarrow> car_ref \<Rightarrow> string \<Rightarrow> int \<Rightarrow> world" where
  "add_car_effect w c rid lane_num =
     (case map_of (roads (sim w)) rid of
        None \<Rightarrow> w
      | Some r \<Rightarrow>
          (case map_of (lanes (road_heap w r)) lane_num of
             None \<Rightarrow> w
           | Some l \<Rightarrow>
               w\<lparr>car_heap := (car_heap w)(c := (car_heap w c)\<lparr>lane := lane_num\<rparr>),
                 road_heap := (road_heap w)
                    (r := (road_heap w r)\<lparr>lanes := AList.update lane_num (l\<lparr>lane_cars := lane_cars l @ [c]\<rparr>)
                                                      (lanes (road_heap w r))\<rparr>),
                 sim := (sim w)\<lparr>cars := cars (sim w) @ [c]\<rparr>\<rparr>))"

definition one_car :: "car_ref \<Rightarrow> Car" where
  "one_car = (\<lambda>r. Car_init ''car_001'' (4, 10) SOUTH STRAIGHT 0 2)"

subsection \<open>Entering an intersection\<close>

text \<open>Membership of a car in the active set of the intersection registered under a key, the
  state of that intersection's signal for a direction, and the permissions of the
  specification: straight on GREEN or GREEN_ARROW, left on GREEN_ARROW only, right on anything
  but RED.\<close>

definition in_intersection :: "world \<Rightarrow> string \<Rightarrow> car_ref \<Rightarrow> bool" where
  "in_intersection w k c =
     (case map_of (intersections (sim w)) k of
        Some i \<Rightarrow> c \<in> set (cars_in_intersection i)
      | None \<Rightarrow> False)"

definition signal_of :: "world \<Rightarrow> string \<Rightarrow> Direction \<Rightarrow> TrafficLightState option" where
  "signal_of w k d =
     (case map_of (intersections (sim w)) k of
        Some i \<Rightarrow> map_option state (lights (traffic_controller i) d)
      | None \<Rightarrow> None)"

fun permits :: "TrafficLightState \<Rightarrow> Movement \<Rightarrow> bool" where
  "permits s STRAIGHT = (s = GREEN \<or> s = GREEN_ARROW)"
| "permits s LEFT = (s = GREEN_ARROW)"
| "permits s RIGHT = (s \<noteq> RED)"

definition signal_permits :: "world \<Rightarrow> string \<Rightarrow> car_ref \<Rightarrow> bool" where
  "signal_permits w k c =
     (case signal_of w k (direction (car_heap w c)) of
        Some s \<Rightarrow> permits s (intended_movement (car_heap w c))
      | None \<Rightarrow> False)"

text \<open>The state in which the movement phase of a tick starts: the clock advanced and the
  intersections as the signal phase left them.\<close>

definition after_signals :: "world \<Rightarrow> (string \<times> Intersection) list \<Rightarrow> world" where
  "after_signals w ws =
     w\<lparr>sim := (sim w)\<lparr>tick_count := tick_count (sim w) + 1, intersections := ws\<rparr>\<rparr>"

text \<open>A car on the last cell of the north road, heading south, with the signal for its heading
  set to GREEN by the caller.\<close>

definition approach_car :: "car_ref \<Rightarrow> Car" where
  "approach_car = (\<lambda>r. Car_init ''car_001'' (8, 10) SOUTH STRAIGHT 0 2)"

definition approach_world :: world where
  "approach_world =
     fst (set_traffic_light (fst (add_car (four_way approach_car) 0 ''north_road'' 0))
            ''main_intersection'' SOUTH GREEN)"

section \<open>Properties\<close>

subsection \<open>The turn table\<close>

text \<open>Claim C5. For every car and every entry direction, \<open>get_exit_direction\<close> returns the
  entry direction for STRAIGHT, the entry direction rotated clockwise for RIGHT and rotated
  counter-clockwise for LEFT.\<close>

theorem get_exit_direction_turn_table:
  "get_exit_direction car d =
     (case intended_movement car of
        STRAIGHT \<Rightarrow> d
      | RIGHT \<Rightarrow> rotate_clockwise d
      | LEFT \<Rightarrow> rotate_counter_clockwise d)"
  by (cases "intended_movement car"; cases d; simp add: get_exit_direction_def)

subsection \<open>The automatic signal cycle\<close>

lemma UNIV_Direction: "UNIV = {NORTH, SOUTH, EAST, WEST}"
  using Direction.exhaust by auto

lemma new_controller_inv: "cycle_inv (new_controller iid) 0"
  by (simp add: new_controller_def cycle_inv_def add_light_def TrafficLightController_init_def
      UNIV_Direction insert_commute)

lemma flip_parity: "(int (j mod 2) + 1) mod 2 = int (Suc j mod 2)"
  by (cases "even j") (auto simp: mod_Suc odd_iff_mod_2_eq_one)

lemma py_index_cycle:
  "py_index [(NORTH, SOUTH), (EAST, WEST)] (int (j mod 2)) =
     Inr (if even j then (NORTH, SOUTH) else (EAST, WEST))"
  by (cases "even j") (auto simp: py_index_def Let_def odd_iff_mod_2_eq_one)

lemma dom_green_if_present: "dom (green_if_present ls d) = dom ls"
  by (auto simp: green_if_present_def split: option.splits if_splits)

lemma dom_all_red: "dom (\<lambda>d. map_option f (ls d)) = dom ls"
  by (auto simp: dom_def)

lemma green_red_lights:
  assumes "dom ls = UNIV"
  shows "map_option state
            (green_if_present (green_if_present (\<lambda>d. map_option (\<lambda>light. set_state light RED 0) (ls d)) d1) d2 d)
         = Some (if d = d1 \<or> d = d2 then GREEN else RED)"
proof -
  have "\<And>x. ls x \<noteq> None" using assms by (metis UNIV_I domIff)
  then obtain a b c where "ls d = Some a" "ls d1 = Some b" "ls d2 = Some c"
    by (meson not_None_eq)
  then show ?thesis
    by (simp add: green_if_present_def set_state_def)
qed

lemma update_automatic_cycle_result:
  assumes "cycle_inv ctl k"
  shows "update_automatic_cycle ctl =
           Inr (ctl\<lparr>cycle_timer := int (Suc k mod 30), cycle_position := int ((Suc k div 30) mod 2),
                    lights := (case (if even (Suc k div 30) then (NORTH, SOUTH) else (EAST, WEST)) of
                       (d1, d2) \<Rightarrow> green_if_present (green_if_present
                          (\<lambda>d. map_option (\<lambda>light. set_state light RED 0) (lights ctl d)) d1) d2)\<rparr>)"
proof (cases "Suc (k mod 30) = 30")
  case True
  then have d: "Suc k div 30 = Suc (k div 30)" and m: "Suc k mod 30 = 0"
    by (simp_all add: div_Suc mod_Suc)
  from True have t: "int (k mod 30) + 1 = 30" by linarith
  show ?thesis
    using assms unfolding cycle_inv_def d m
    by (simp add: update_automatic_cycle_def Let_def t flip_parity py_index_cycle del: mod_Suc)
next
  case False
  then have d: "Suc k div 30 = k div 30" and m: "Suc k mod 30 = Suc (k mod 30)"
    by (simp_all add: div_Suc mod_Suc)
  have "k mod 30 < 30" by simp
  with False have t: "\<not> 30 \<le> int (k mod 30) + 1" by linarith
  show ?thesis
    using assms unfolding cycle_inv_def d m
    by (simp add: update_automatic_cycle_def Let_def t py_index_cycle del: mod_Suc)
qed

lemma update_automatic_cycle_inv:
  assumes "cycle_inv ctl k"
  shows "\<exists>ctl'. update_automatic_cycle ctl = Inr ctl' \<and> cycle_inv ctl' (Suc k) \<and> phase_shown ctl' (Suc k)"
proof -
  have dm: "dom (lights ctl) = UNIV" using assms by (simp add: cycle_inv_def)
  show ?thesis
    unfolding update_automatic_cycle_result [OF assms]
    using assms
    by (simp add: cycle_inv_def phase_shown_def get_state_info_def green_red_lights [OF dm]
        dom_green_if_present dom_all_red del: mod_Suc div_Suc)
qed


lemma set_light_state_inv: "cycle_inv ctl k \<Longrightarrow> cycle_inv (set_light_state ctl d s) k"
  by (auto simp: cycle_inv_def set_light_state_def split: option.splits)

lemma controller_update_inv: "cycle_inv ctl k \<Longrightarrow> cycle_inv (TrafficLightController_update ctl) k"
  by (simp add: cycle_inv_def TrafficLightController_update_def dom_all_red)

lemma calls_inv:
  "cycle_inv ctl k \<Longrightarrow>
     \<exists>ctl'. calls ctl cs = Inr ctl' \<and> cycle_inv ctl' (k + count_list cs Update_automatic_cycle)"
proof (induction cs arbitrary: ctl k)
  case Nil
  then show ?case by simp
next
  case (Cons x cs)
  show ?case
  proof (cases x)
    case (Set_light_state d s)
    with Cons.IH [OF set_light_state_inv [OF Cons.prems, of d s]] show ?thesis by simp
  next
    case Update_automatic_cycle
    from update_automatic_cycle_inv [OF Cons.prems] obtain c1
      where c1: "update_automatic_cycle ctl = Inr c1" "cycle_inv c1 (Suc k)" by blast
    from Cons.IH [OF c1(2)] c1(1) Update_automatic_cycle show ?thesis by simp
  next
    case Update
    with Cons.IH [OF controller_update_inv [OF Cons.prems]] show ?thesis by simp
  qed
qed

lemma calls_append:
  "calls ctl (xs @ ys) = (case calls ctl xs of Inl e \<Rightarrow> Inl e | Inr ctl' \<Rightarrow> calls ctl' ys)"
  by (induction xs arbitrary: ctl) (auto split: sum.splits)

text \<open>Claim C4. From a new controller with its four lights, after any sequence of calls
  (overrides by \<open>set_light_state\<close>, runs of the automatic cycle, timer updates) that ends in
  the \<open>k\<close>-th run of \<open>update_automatic_cycle\<close>, no exception was raised and the
  signals are exactly those of the active phase: the two directions of the phase GREEN, the
  other two RED, whatever the overrides before. The phase is (NORTH, SOUTH) at first and
  flips at every 30th run, that is, it is (NORTH, SOUTH) when \<open>k div 30\<close> is even and
  (EAST, WEST) when it is odd.\<close>

theorem automatic_cycle_phase:
  "\<exists>ctl. calls (new_controller iid) (cs @ [Update_automatic_cycle]) = Inr ctl \<and>
         phase_shown ctl (Suc (count_list cs Update_automatic_cycle))"
proof -
  from calls_inv [OF new_controller_inv, of iid cs] obtain c1
    where c1: "calls (new_controller iid) cs = Inr c1"
      "cycle_inv c1 (count_list cs Update_automatic_cycle)" by auto
  from update_automatic_cycle_inv [OF c1(2)] c1(1) show ?thesis
    by (auto simp: calls_append)
qed

subsection \<open>The contract of \<open>add_car\<close>\<close>

lemma lanes_constructedD:
  assumes "lanes_constructed w" "map_of (roads (sim w)) rid = Some r"
    "map_of (lanes (road_heap w r)) n = Some l"
  shows "max_cars l = card (positions l)"
proof -
  from assms(2) have "(rid, r) \<in> set (roads (sim w))" by (rule map_of_SomeD)
  with assms(1) have "list_all (\<lambda>(n, l). max_cars l = card (positions l)) (lanes (road_heap w r))"
    by (auto simp: lanes_constructed_def list_all_iff)
  moreover from assms(3) have "(n, l) \<in> set (lanes (road_heap w r))" by (rule map_of_SomeD)
  ultimately show ?thesis by (auto simp: list_all_iff)
qed

text \<open>Claim C8. \<open>add_car\<close> returns True exactly when the road is known, the lane index names
  one of its lanes, the lane holds fewer cars than it has cells and the car's cell is one of the
  lane's cells. On True the car is appended to the car list and to the lane and its lane index
  is set to the lane number; on False the state is unchanged. The lanes are assumed to have the
  capacity their constructor sets (the number of cells).\<close>

theorem add_car_contract:
  assumes "lanes_constructed w"
  shows "add_car w c rid lane_num =
           (if add_car_accepts w c rid lane_num then (add_car_effect w c rid lane_num, True)
            else (w, False))"
proof (cases "map_of (roads (sim w)) rid")
  case None
  then show ?thesis by (simp add: add_car_def add_car_accepts_def)
next
  case (Some r)
  show ?thesis
  proof (cases "map_of (lanes (road_heap w r)) lane_num")
    case None
    with Some show ?thesis
      by (simp add: add_car_def add_car_accepts_def Road_add_car_def)
  next
    case (Some l)
    note l = this
    from lanes_constructedD [OF assms \<open>map_of (roads (sim w)) rid = Some r\<close> l]
    have m: "max_cars l = card (positions l)" .
    show ?thesis
      using \<open>map_of (roads (sim w)) rid = Some r\<close> l m
      by (simp add: add_car_def add_car_accepts_def add_car_effect_def Road_add_car_def
          Lane_add_car_def Let_def)
  qed
qed

theorem add_car_contract_witness:
  "lanes_constructed (four_way one_car) \<and>
   add_car (four_way one_car) 0 ''north_road'' 0 =
     (add_car_effect (four_way one_car) 0 ''north_road'' 0, True) \<and>
   cars (sim (add_car_effect (four_way one_car) 0 ''north_road'' 0)) = [0] \<and>
   add_car (four_way one_car) 0 ''north_road'' 2 = (four_way one_car, False)"
proof -
  have h: "lanes_constructed (four_way one_car)" by code_simp
  have a: "add_car_accepts (four_way one_car) 0 ''north_road'' 0" by code_simp
  have b: "\<not> add_car_accepts (four_way one_car) 0 ''north_road'' 2" by code_simp
  have c: "cars (sim (add_car_effect (four_way one_car) 0 ''north_road'' 0)) = [0]" by code_simp
  from add_car_contract [OF h, of 0 "''north_road''" 0] add_car_contract [OF h, of 0 "''north_road''" 2]
    a b c h show ?thesis by simp
qed

subsection \<open>Signal-gated entry\<close>

lemma can_car_enter_permits:
  assumes "can_car_enter h i c d = Inr True"
  shows "\<exists>l. lights (traffic_controller i) d = Some l \<and> permits (state l) (intended_movement (h c))"
  using assms
  by (cases "intended_movement (h c)")
     (auto simp: can_car_enter_def Let_def can_go_straight_def can_turn_left_def can_turn_right_def
       split: option.splits if_splits)

lemma find_key_map_of:
  assumes "distinct (map fst xs)" "find P xs = Some (k, v)"
  shows "map_of xs k = Some v"
proof -
  from assms(2) have "(k, v) \<in> set xs" by (auto simp: find_Some_iff)
  with assms(1) show ?thesis by simp
qed

lemma map_of_update: "map_of (AList.update k v xs) k' = (if k' = k then Some v else map_of xs k')"
  by (simp add: update_conv')

text \<open>What a call on the road path can do to the engine record: nothing, or the entry of the
  mover into an intersection that admitted it.\<close>

lemma move_car_on_road_cases:
  assumes d: "distinct (map fst (intersections (sim w)))"
    and m: "move_car_on_road w c rid = Inr (w', b)"
  shows "sim w' = sim w \<or>
         (\<exists>r k0 i np. map_of (intersections (sim w)) k0 = Some i \<and>
            can_car_enter (car_heap w) i c (direction (car_heap w c)) = Inr True \<and>
            w' = enter_intersection w c r k0 i np)"
proof -
  from m obtain r where r: "map_of (roads (sim w)) rid = Some r"
    by (auto simp: move_car_on_road_def split: option.splits)
  show ?thesis
  proof (cases "[1..min (max_car_speed (sim w)) 1]")
    case Nil
    with m r show ?thesis
      by (auto simp: move_car_on_road_def wait_car_def)
  next
    case (Cons dist rest)
    let ?np = "get_next_position (car_heap w c) dist"
    show ?thesis
    proof (cases "is_valid_position (sim w) ?np")
      case False
      with m r Cons show ?thesis
        by (auto simp: move_car_on_road_def wait_car_def Let_def)
    next
      case True
      show ?thesis
      proof (cases "get_intersection_at_position (sim w) ?np")
        case None
        with m r Cons True show ?thesis
          by (auto simp: move_car_on_road_def wait_car_def Let_def split: if_splits)
      next
        case (Some ki)
        obtain k0 i where ki: "ki = (k0, i)" by (cases ki)
        from Some ki have "find (\<lambda>(k, i). ?np \<in> intersection_positions i) (intersections (sim w)) = Some (k0, i)"
          by (simp add: get_intersection_at_position_def)
        from find_key_map_of [OF d this] have mo: "map_of (intersections (sim w)) k0 = Some i" .
        show ?thesis
        proof (cases "can_car_enter (car_heap w) i c (direction (car_heap w c))")
          case (Inl x)
          with m r Cons True Some ki show ?thesis
            by (auto simp: move_car_on_road_def Let_def)
        next
          case (Inr ok)
          show ?thesis
          proof (cases ok)
            case False
            with Inr m r Cons True Some ki show ?thesis
              by (auto simp: move_car_on_road_def wait_car_def Let_def)
          next
            case True
            with Inr m r Cons \<open>is_valid_position (sim w) ?np\<close> Some ki
            have "w' = enter_intersection w c r k0 i ?np"
              by (auto simp: move_car_on_road_def Let_def)
            moreover from Inr True
            have "can_car_enter (car_heap w) i c (direction (car_heap w c)) = Inr True" by simp
            ultimately show ?thesis using mo by blast
          qed
        qed
      qed
    qed
  qed
qed

text \<open>The intersection path: nothing happens to the engine record, or the mover leaves an
  intersection.\<close>

lemma move_car_in_intersection_cases:
  assumes m: "move_car_in_intersection w c iid = Inr (w', b)"
  shows "sim w' = sim w \<or>
         (\<exists>i ed er np. map_of (intersections (sim w)) iid = Some i \<and>
            w' = exit_intersection w c iid i ed er np)"
proof -
  from m obtain i where i: "map_of (intersections (sim w)) iid = Some i"
    by (auto simp: move_car_in_intersection_def split: option.splits)
  have cont: "sim (fst (continue_in_intersection w c i)) = sim w"
    by (simp add: continue_in_intersection_def Let_def wait_car_def)
  from m i have "(w', b) = continue_in_intersection w c i \<or> w' = wait_car w c \<or>
      (\<exists>ed er. w' = exit_intersection w c iid i ed er (get_next_position (car_heap w c) 1))"
    by (auto simp: move_car_in_intersection_def Let_def split: option.splits if_splits)
  then consider "w' = fst (continue_in_intersection w c i)" | "w' = wait_car w c"
    | "\<exists>ed er. w' = exit_intersection w c iid i ed er (get_next_position (car_heap w c) 1)"
    by (metis fst_conv)
  then show ?thesis
  proof cases
    case 1
    with cont show ?thesis by simp
  next
    case 2
    then show ?thesis by (simp add: wait_car_def)
  next
    case 3
    with i show ?thesis by blast
  qed
qed

lemma move_car_cases:
  assumes d: "distinct (map fst (intersections (sim w)))"
    and m: "move_car w c = Inr (w', b)"
  shows "sim w' = sim w \<or>
         (\<exists>r k0 i np. map_of (intersections (sim w)) k0 = Some i \<and>
            can_car_enter (car_heap w) i c (direction (car_heap w c)) = Inr True \<and>
            w' = enter_intersection w c r k0 i np) \<or>
         (\<exists>iid i ed er np. map_of (intersections (sim w)) iid = Some i \<and>
            w' = exit_intersection w c iid i ed er np)"
proof -
  obtain ro io where loc: "find_car_location w c = (ro, io)" by (cases "find_car_location w c")
  show ?thesis
  proof (cases "truthy ro")
    case True
    with m loc have "move_car_on_road w c (the ro) = Inr (w', b)"
      by (simp add: move_car_def)
    from move_car_on_road_cases [OF d this] show ?thesis by blast
  next
    case False
    show ?thesis
    proof (cases "truthy io")
      case True
      with False m loc have "move_car_in_intersection w c (the io) = Inr (w', b)"
        by (simp add: move_car_def)
      from move_car_in_intersection_cases [OF this] show ?thesis by blast
    next
      case f2: False
      with False m loc have "w' = w" by (simp add: move_car_def)
      then show ?thesis by simp
    qed
  qed
qed

lemma sim_enter_intersection:
  "intersections (sim (enter_intersection w c r k0 i np)) =
     AList.update k0 (fst (add_car_to_intersection ((car_heap w)(c := move_to (car_heap w c) np)) i c))
       (intersections (sim w))"
  by (simp add: enter_intersection_def Let_def)

lemma sim_exit_intersection:
  "intersections (sim (exit_intersection w c iid i ed er np)) =
     AList.update iid (fst (remove_car_from_intersection i c)) (intersections (sim w))"
  by (simp add: exit_intersection_def Let_def split: prod.splits)

lemma add_car_to_intersection_frame:
  "traffic_controller (fst (add_car_to_intersection h i c)) = traffic_controller i"
  "x \<in> set (cars_in_intersection (fst (add_car_to_intersection h i c))) \<Longrightarrow>
     x \<in> set (cars_in_intersection i) \<or> x = c"
  by (auto simp: add_car_to_intersection_def split: if_splits)

lemma remove_car_from_intersection_frame:
  "traffic_controller (fst (remove_car_from_intersection i c)) = traffic_controller i"
  "x \<in> set (cars_in_intersection (fst (remove_car_from_intersection i c))) \<Longrightarrow>
     x \<in> set (cars_in_intersection i)"
  by (auto simp: remove_car_from_intersection_def split: if_splits
      dest: set_remove1_subset [THEN subsetD])

text \<open>One call of \<open>move_car\<close>: whoever is a member of an active set afterwards and was not
  before is the mover, and the signal for its heading permitted its movement.\<close>

lemma move_car_entry:
  assumes d: "distinct (map fst (intersections (sim w)))"
    and m: "move_car w c = Inr (w', b)"
    and n: "\<not> in_intersection w k x" and e: "in_intersection w' k x"
  shows "x = c \<and> signal_permits w k c"
proof -
  from move_car_cases [OF d m] consider
    (same) "sim w' = sim w"
  | (enter) r k0 i np where "map_of (intersections (sim w)) k0 = Some i"
      "can_car_enter (car_heap w) i c (direction (car_heap w c)) = Inr True"
      "w' = enter_intersection w c r k0 i np"
  | (exit) iid i ed er np where "map_of (intersections (sim w)) iid = Some i"
      "w' = exit_intersection w c iid i ed er np"
    by blast
  then show ?thesis
  proof cases
    case same
    with n e show ?thesis by (simp add: in_intersection_def)
  next
    case enter
    have k: "k = k0"
    proof (rule ccontr)
      assume "k \<noteq> k0"
      with e n enter(3) show False
        by (simp add: in_intersection_def sim_enter_intersection map_of_update)
    qed
    from e n enter(1) have "x = c"
      by (auto simp: k enter(3) in_intersection_def sim_enter_intersection map_of_update
          dest: add_car_to_intersection_frame(2))
    moreover from can_car_enter_permits [OF enter(2)] enter(1) have "signal_permits w k c"
      by (auto simp: k signal_permits_def signal_of_def)
    ultimately show ?thesis by simp
  next
    case exit
    from e n exit(1) have False
      by (auto simp: exit(2) in_intersection_def sim_exit_intersection map_of_update
          split: if_splits dest: remove_car_from_intersection_frame(2))
    then show ?thesis ..
  qed
qed

text \<open>A call of \<open>move_car\<close> changes no signal and keeps the keys of the dictionary of
  intersections.\<close>

lemma move_car_frame:
  assumes d: "distinct (map fst (intersections (sim w)))"
    and m: "move_car w c = Inr (w', b)"
  shows "distinct (map fst (intersections (sim w'))) \<and> signal_of w' k dir = signal_of w k dir"
proof -
  from move_car_cases [OF d m] consider
    (same) "sim w' = sim w"
  | (enter) r k0 i np where "map_of (intersections (sim w)) k0 = Some i"
      "w' = enter_intersection w c r k0 i np"
  | (exit) iid i ed er np where "map_of (intersections (sim w)) iid = Some i"
      "w' = exit_intersection w c iid i ed er np"
    by blast
  then show ?thesis
  proof cases
    case same
    with d show ?thesis by (simp add: signal_of_def)
  next
    case enter
    with d show ?thesis
      by (auto simp: signal_of_def sim_enter_intersection map_of_update distinct_update
          add_car_to_intersection_frame(1))
  next
    case exit
    with d show ?thesis
      by (auto simp: signal_of_def sim_exit_intersection map_of_update distinct_update
          remove_car_from_intersection_frame(1))
  qed
qed


text \<open>The signal phase keeps the keys and the active sets.\<close>

lemma update_intersections_frame:
  "update_intersections xs = Inr ys \<Longrightarrow>
     map fst ys = map fst xs \<and>
     map_option cars_in_intersection (map_of ys k) = map_option cars_in_intersection (map_of xs k)"
proof (induction xs arbitrary: ys)
  case Nil
  then show ?case by simp
next
  case (Cons p xs)
  obtain key i where p: "p = (key, i)" by (cases p)
  from Cons.prems p obtain ctl rest where
    c: "update_automatic_cycle (traffic_controller i) = Inr ctl"
    and r: "update_intersections xs = Inr rest"
    and y: "ys = (key, Intersection_update (i\<lparr>traffic_controller := ctl\<rparr>)) # rest"
    by (auto split: sum.splits)
  from Cons.IH [OF r] show ?case
    by (simp add: p y Intersection_update_def)
qed

lemma in_intersection_alt:
  "in_intersection w k x =
     (case map_option cars_in_intersection (map_of (intersections (sim w)) k) of
        Some cs \<Rightarrow> x \<in> set cs | None \<Rightarrow> False)"
  by (simp add: in_intersection_def split: option.splits)

lemma after_signals_frame:
  assumes "update_intersections (intersections (sim w)) = Inr ws"
  shows "in_intersection (after_signals w ws) k x = in_intersection w k x"
    and "distinct (map fst (intersections (sim (after_signals w ws)))) =
         distinct (map fst (intersections (sim w)))"
  using update_intersections_frame [OF assms]
  by (simp_all add: in_intersection_alt after_signals_def)

lemma move_cars_split:
  "move_cars w (xs @ c # ys) = Inr (w', bs) \<Longrightarrow>
     \<exists>w1 bs1 w2 b bs2. move_cars w xs = Inr (w1, bs1) \<and> move_car w1 c = Inr (w2, b) \<and>
        move_cars w2 ys = Inr (w', bs2)"
proof (induction xs arbitrary: w bs)
  case Nil
  then show ?case by (auto split: sum.splits prod.splits)
next
  case (Cons a xs)
  from Cons.prems obtain wa ba bs' where a: "move_car w a = Inr (wa, ba)"
    and r: "move_cars wa (xs @ c # ys) = Inr (w', bs')"
    by (auto split: sum.splits prod.splits)
  from Cons.IH [OF r] a show ?case by auto
qed

lemma move_cars_frame:
  "distinct (map fst (intersections (sim w))) \<Longrightarrow> move_cars w xs = Inr (w1, bs) \<Longrightarrow>
     distinct (map fst (intersections (sim w1))) \<and> signal_of w1 k d = signal_of w k d"
proof (induction xs arbitrary: w bs)
  case Nil
  then show ?case by simp
next
  case (Cons a xs)
  from Cons.prems(2) obtain wa ba bs' where a: "move_car w a = Inr (wa, ba)"
    and r: "move_cars wa xs = Inr (w1, bs')"
    by (auto split: sum.splits prod.splits)
  from move_car_frame [OF Cons.prems(1) a, of k d]
  have da: "distinct (map fst (intersections (sim wa)))" and sa: "signal_of wa k d = signal_of w k d"
    by simp_all
  from Cons.IH [OF da r] sa show ?case by simp
qed

text \<open>Claim C3. A tick, for any order of the cars and any car \<open>c\<close> in that order, is the
  signal phase, the moves of the cars before \<open>c\<close>, the call of \<open>move_car\<close> for \<open>c\<close> and the
  moves of the cars after it. The signal phase makes no car a member of an active set. The
  signals seen by the call for \<open>c\<close> are those the signal phase left. In that call the only
  car that can become a member of an intersection's active set is \<open>c\<close> itself, and it does so
  only if that intersection's signal for its heading permits its intended movement:
  GREEN_ARROW for LEFT, GREEN or GREEN_ARROW for STRAIGHT, anything but RED for RIGHT. (The
  dictionary of intersections has distinct keys.)\<close>

theorem signal_gated_entry:
  assumes "distinct (map fst (intersections (sim w)))"
    and "tick w (before @ c # after) = Inr w'"
  shows "\<exists>ws w1 b w2 bs1 bs2.
           update_intersections (intersections (sim w)) = Inr ws \<and>
           move_cars (after_signals w ws) before = Inr (w1, bs1) \<and>
           move_car w1 c = Inr (w2, b) \<and>
           move_cars w2 after = Inr (w', bs2) \<and>
           (\<forall>k x. in_intersection (after_signals w ws) k x = in_intersection w k x) \<and>
           (\<forall>k d. signal_of w1 k d = signal_of (after_signals w ws) k d) \<and>
           (\<forall>k x. \<not> in_intersection w1 k x \<longrightarrow> in_intersection w2 k x \<longrightarrow>
                    x = c \<and> signal_permits w1 k c)"
proof -
  from assms(2) obtain ws bs where ws: "update_intersections (intersections (sim w)) = Inr ws"
    and mv: "move_cars (after_signals w ws) (before @ c # after) = Inr (w', bs)"
    by (auto simp: tick_def after_signals_def split: sum.splits prod.splits)
  from move_cars_split [OF mv] obtain w1 bs1 w2 b bs2 where
    m1: "move_cars (after_signals w ws) before = Inr (w1, bs1)"
    and m2: "move_car w1 c = Inr (w2, b)"
    and m3: "move_cars w2 after = Inr (w', bs2)"
    by blast
  from after_signals_frame(2) [OF ws] assms(1)
  have d0: "distinct (map fst (intersections (sim (after_signals w ws))))" by simp
  have d1: "distinct (map fst (intersections (sim w1)))"
    using move_cars_frame [OF d0 m1] by simp
  have s1: "\<forall>k d. signal_of w1 k d = signal_of (after_signals w ws) k d"
    using move_cars_frame [OF d0 m1] by simp
  have e: "\<forall>k x. \<not> in_intersection w1 k x \<longrightarrow> in_intersection w2 k x \<longrightarrow>
                    x = c \<and> signal_permits w1 k c"
    using move_car_entry [OF d1 m2] by blast
  from ws m1 m2 m3 after_signals_frame(1) [OF ws] s1 e show ?thesis by blast
qed

theorem signal_gated_entry_witness:
  "distinct (map fst (intersections (sim approach_world))) \<and>
   tick approach_world ([] @ 0 # []) = Inr (projr (tick approach_world [0])) \<and>
   \<not> in_intersection approach_world ''main_intersection'' 0 \<and>
   in_intersection (projr (tick approach_world [0])) ''main_intersection'' 0 \<and>
   (\<exists>ws w1 b w2 bs1 bs2.
      update_intersections (intersections (sim approach_world)) = Inr ws \<and>
      move_cars (after_signals approach_world ws) [] = Inr (w1, bs1) \<and>
      move_car w1 0 = Inr (w2, b) \<and>
      move_cars w2 [] = Inr (projr (tick approach_world [0]), bs2) \<and>
      (\<forall>k x. in_intersection (after_signals approach_world ws) k x = in_intersection approach_world k x) \<and>
      (\<forall>k d. signal_of w1 k d = signal_of (after_signals approach_world ws) k d) \<and>
      (\<forall>k x. \<not> in_intersection w1 k x \<longrightarrow> in_intersection w2 k x \<longrightarrow>
               x = 0 \<and> signal_permits w1 k 0))"
proof -
  have d: "distinct (map fst (intersections (sim approach_world)))" by code_simp
  have "\<not> isl (tick approach_world [0])" by code_simp
  then have t: "tick approach_world ([] @ 0 # []) = Inr (projr (tick approach_world [0]))"
    by simp
  have n: "\<not> in_intersection approach_world ''main_intersection'' 0" by code_simp
  have e: "in_intersection (projr (tick approach_world [0])) ''main_intersection'' 0"
    by code_simp
  from signal_gated_entry [OF d t] d t n e show ?thesis by blast
qed

end
